theory Spec2Isabelle
  imports Main "HOL-Library.Sublist"
begin

section \<open>Paths and the file system\<close>

text \<open>
  A path is the list of the segments of an absolute, normalised POSIX path. The project
  directory (the result of \<open>getProjectPath()\<close>) is such a path and is a parameter of
  every operation. \<open>path.join(dir, s)\<close> splits \<open>s\<close> at the separator and resolves its
  segments against \<open>dir\<close>: empty and \<open>.\<close> segments are dropped, \<open>..\<close> removes the
  last segment (and stays at the root), any other segment is appended.
\<close>

type_synonym path = "string list"

fun split_sep :: "string \<Rightarrow> string list" where
  "split_sep [] = [[]]"
| "split_sep (c # cs) =
     (if c = CHR ''/'' then [] # split_sep cs
      else (case split_sep cs of
              [] \<Rightarrow> [[c]]
            | w # ws \<Rightarrow> (c # w) # ws))"

definition resolve_segment :: "path \<Rightarrow> string \<Rightarrow> path" where
  "resolve_segment dir seg =
     (if seg = [] \<or> seg = ''.'' then dir
      else if seg = ''..'' then butlast dir
      else dir @ [seg])"

definition path_join :: "path \<Rightarrow> string \<Rightarrow> path" where
  "path_join dir s = foldl resolve_segment dir (split_sep s)"

text \<open>
  The template string \<open>`${dbPath}-journal`\<close> appends to the text of the path, that is,
  to its last segment.
\<close>

definition path_suffix :: "path \<Rightarrow> string \<Rightarrow> path" where
  "path_suffix p s = (if p = [] then [s] else butlast p @ [last p @ s])"

definition getDatabasePath :: "path \<Rightarrow> path" where
  "getDatabasePath projectPath = path_join projectPath ''wp-content/database/.ht.sqlite''"

definition getCheckpointsPath :: "path \<Rightarrow> path" where
  "getCheckpointsPath projectPath = path_join projectPath ''wp-content/database/checkpoints''"

subsection \<open>Snapshot index\<close>

record Checkpoint =
  name :: string
  created :: string
  "file" :: string
  description :: "string option"

record CheckpointMeta =
  checkpoints :: "Checkpoint list"

subsection \<open>Configuration document\<close>

text \<open>
  An optional property of an in-memory JavaScript object has three states: the key is
  absent, the key is present and holds \<open>undefined\<close>, or it holds a value. Object spread
  copies the last two; \<open>JSON.stringify\<close> drops the second.
\<close>

datatype 'a property = Absent | Undefined | Value 'a

datatype PluginResource = WordpressOrgPlugins | PluginUrl

record PluginData =
  resource :: PluginResource
  slug :: "string option"
  url :: "string option"

datatype ThemeResource = WordpressOrgThemes | ThemeUrl

record ThemeData =
  theme_resource :: ThemeResource
  theme_slug :: "string option"
  theme_url :: "string option"

text \<open>
  \<open>BlueprintStep\<close> is a union discriminated by the property \<open>step\<close>. Its last member
  \<open>{ step: string; [key: string]: unknown }\<close> admits every tag with any further keys;
  of those keys the code only looks at \<open>pluginData\<close>, of type \<open>unknown\<close> there: the key
  can be absent, hold \<open>null\<close> (or \<open>undefined\<close>), hold a number, a string or a boolean,
  or hold an object, which the type guard in \<open>getPluginsFromBlueprint\<close> takes to be a
  \<open>PluginData\<close>.
\<close>

datatype UnknownPluginData =
    NoPluginData
  | NullPluginData
  | PrimitivePluginData
  | ObjectPluginData PluginData

datatype BlueprintStep =
    Login "string option" "string option"
  | InstallPlugin PluginData
  | InstallTheme ThemeData
  | SetSiteOptions "(string \<times> string) list"
  | RunPHP string
  | OtherStep string UnknownPluginData

record Versions =
  php :: "string property"
  wp :: "string property"

record Features =
  networking :: "bool property"

record Wpsmith =
  port :: "int property"

record Blueprint =
  schema :: "string property"
  landingPage :: "string property"
  preferredVersions :: "Versions property"
  features :: "Features property"
  steps :: "BlueprintStep list property"
  wpsmith :: "Wpsmith property"

subsection \<open>Files and directories\<close>

text \<open>
  The content of a file is a JSON document of one of the two shapes the program reads
  with \<open>fs.readJSON\<close> (the snapshot index and the configuration document), a JSON text of
  neither shape (\<open>null\<close>, an array, a number, ...), or any other content, which
  \<open>fs.readJSON\<close> rejects; the last two are given by their bytes.
\<close>

datatype content =
    Raw string
  | MetaDoc CheckpointMeta
  | BlueprintDoc Blueprint
  | OtherJson string

text \<open>
  The file system of the snapshot store maps a path to what is there: a file with its
  content, or a directory. In a file system every ancestor of a path that is there is a
  directory; the operations below keep that, and they are written so that they do what
  fs-extra does on such a map.
\<close>

datatype node = File content | Dir

type_synonym fs = "path \<rightharpoonup> node"

definition isFile :: "fs \<Rightarrow> path \<Rightarrow> bool" where
  "isFile fs p = (case fs p of Some (File _) \<Rightarrow> True | _ \<Rightarrow> False)"

text \<open>The proper prefixes of a path, from the root down.\<close>

fun ancestors :: "path \<Rightarrow> path list" where
  "ancestors [] = []"
| "ancestors (s # p) = [] # map ((#) s) (ancestors p)"

text \<open>A path below a file cannot be reached (\<open>ENOTDIR\<close>).\<close>

definition underFile :: "fs \<Rightarrow> path \<Rightarrow> bool" where
  "underFile fs p = list_ex (isFile fs) (ancestors p)"

text \<open>\<open>fs.pathExists(p)\<close>: a file or a directory is there.\<close>

definition pathExists :: "fs \<Rightarrow> path \<Rightarrow> bool" where
  "pathExists fs p = (fs p \<noteq> None)"

text \<open>
  \<open>fs.ensureDir(dir)\<close> makes the directory and the ancestors it lacks; it rejects when
  the path or one of its ancestors is a file.
\<close>

definition ensureDir :: "path \<Rightarrow> fs \<Rightarrow> fs option" where
  "ensureDir dir fs =
     (if underFile fs dir \<or> isFile fs dir then None
      else Some (\<lambda>q. if prefix q dir then Some Dir else fs q))"

text \<open>
  \<open>fs.copy(src, dest)\<close>. It rejects when the source is missing, when source and
  destination are the same, when the destination lies below a file, when a file is to
  replace a directory or a directory a file, and when a directory is to be copied into
  itself. Otherwise it makes the ancestors of the destination and writes the file there,
  or, for a directory, everything below the source at the same place below the
  destination (what else is below the destination stays). The commands copy to a
  destination where nothing is (\<open>checkpointCreate\<close> has tested it,
  \<open>checkpointRestore\<close> has removed it), so a file of the source never meets a
  directory of the destination, or a directory a file.
\<close>

definition copy :: "path \<Rightarrow> path \<Rightarrow> fs \<Rightarrow> fs option" where
  "copy src dest fs =
     (case fs src of
        None \<Rightarrow> None
      | Some (File c) \<Rightarrow>
          if src = dest \<or> underFile fs dest \<or> fs dest = Some Dir then None
          else Some (\<lambda>q. if q = dest then Some (File c)
                           else if strict_prefix q dest then Some Dir
                           else fs q)
      | Some Dir \<Rightarrow>
          if prefix src dest \<or> underFile fs dest \<or> isFile fs dest then None
          else Some (\<lambda>q. if prefix dest q
                           then (case fs (src @ drop (length dest) q) of
                                   Some n \<Rightarrow> Some n
                                 | None \<Rightarrow> fs q)
                           else if strict_prefix q dest then Some Dir
                           else fs q))"

text \<open>
  \<open>fs.remove(p).catch(() => {})\<close> removes a file, or a directory with everything below
  it; a missing path is not an error.
\<close>

definition remove :: "path \<Rightarrow> fs \<Rightarrow> fs" where
  "remove p fs = (\<lambda>q. if prefix p q then None else fs q)"

text \<open>
  \<open>fs.readJSON(metaPath).catch(() => ({ checkpoints: [] }))\<close>, as far as the first use
  of \<open>meta.checkpoints\<close>. A missing file, a directory and content that does not parse
  are caught and give the empty index. A JSON text that parses and is not an index is
  returned by \<open>readJSON\<close>, and the first use of \<open>meta.checkpoints\<close> then throws a
  \<open>TypeError\<close>: that is \<open>None\<close>.
\<close>

definition readMeta :: "fs \<Rightarrow> path \<Rightarrow> CheckpointMeta option" where
  "readMeta fs metaPath =
     (case fs metaPath of
        Some (File (MetaDoc meta)) \<Rightarrow> Some meta
      | Some (File (BlueprintDoc _)) \<Rightarrow> None
      | Some (File (OtherJson _)) \<Rightarrow> None
      | _ \<Rightarrow> Some \<lparr>checkpoints = []\<rparr>)"

text \<open>
  \<open>fs.writeJSON(metaPath, meta)\<close> writes the file; it rejects when the path is a
  directory and when its parent directory is not there.
\<close>

definition writeMeta :: "path \<Rightarrow> CheckpointMeta \<Rightarrow> fs \<Rightarrow> fs option" where
  "writeMeta metaPath meta fs =
     (if fs metaPath = Some Dir \<or> fs (butlast metaPath) \<noteq> Some Dir then None
      else Some (fs(metaPath \<mapsto> File (MetaDoc meta))))"

section \<open>Snapshot store (commands/checkpoint.ts)\<close>

text \<open>
  Every command ends the process with a status; the failures are named after the
  conditions of the specification:
  \<^item> \<open>NoLiveData\<close>: "No database found. Run the site first to create a database."
  \<^item> \<open>DuplicateName\<close>: "Checkpoint ... already exists."
  \<^item> \<open>NotFound\<close>: "No checkpoints found." and "Checkpoint ... not found."
  \<^item> \<open>MissingFile\<close>: "Checkpoint file not found: ..."
  \<^item> \<open>IOFailure\<close>: the \<open>catch\<close> branch of a \<open>try\<close> block.
  \<^item> \<open>Uncaught\<close>: an exception thrown outside every \<open>try\<close> block.
  An operation returns the status together with the file system it leaves behind.
\<close>

datatype error = NoLiveData | DuplicateName | NotFound | MissingFile | IOFailure | Uncaught

datatype outcome = Done | Failed error

text \<open>A string is truthy when it is defined and not empty (\<open>name || ...\<close>, \<open>if (name)\<close>).\<close>

fun truthy :: "string option \<Rightarrow> bool" where
  "truthy None = False"
| "truthy (Some s) = (s \<noteq> [])"

text \<open>
  \<open>checkpointCreate\<close>. \<open>timestamp\<close> is the decimal rendering of \<open>Date.now()\<close> and
  \<open>now\<close> is \<open>new Date().toISOString()\<close>. \<open>fs.ensureDir\<close> stands before the
  \<open>try\<close> block; the copy, the \<open>push\<close> and the write of the index stand in it.
\<close>

definition checkpointCreate ::
  "path \<Rightarrow> string option \<Rightarrow> string option \<Rightarrow> string \<Rightarrow> string \<Rightarrow> fs \<Rightarrow> outcome \<times> fs" where
  "checkpointCreate projectPath nm descr timestamp now fs =
     (let dbPath = getDatabasePath projectPath;
          checkpointDir = getCheckpointsPath projectPath
      in if \<not> pathExists fs dbPath then (Failed NoLiveData, fs)
         else
           (case ensureDir checkpointDir fs of
              None \<Rightarrow> (Failed Uncaught, fs)
            | Some fs0 \<Rightarrow>
                let checkpointName = (if truthy nm then the nm else ''checkpoint-'' @ timestamp);
                    checkpointFile = checkpointName @ ''.sqlite'';
                    checkpointPath = path_join checkpointDir checkpointFile
                in if pathExists fs0 checkpointPath then (Failed DuplicateName, fs0)
                   else
                     (case copy dbPath checkpointPath fs0 of
                        None \<Rightarrow> (Failed IOFailure, fs0)
                      | Some fs1 \<Rightarrow>
                          let metaPath = path_join checkpointDir ''meta.json''
                          in (case readMeta fs1 metaPath of
                                None \<Rightarrow> (Failed IOFailure, fs1)
                              | Some meta \<Rightarrow>
                                  let meta' = meta\<lparr>checkpoints := checkpoints meta @
                                        [\<lparr>name = checkpointName, created = now,
                                          file = checkpointFile, description = descr\<rparr>]\<rparr>
                                  in (case writeMeta metaPath meta' fs1 of
                                        None \<Rightarrow> (Failed IOFailure, fs1)
                                      | Some fs2 \<Rightarrow> (Done, fs2))))))"

text \<open>
  \<open>checkpointRestore\<close>, with \<open>Array.prototype.find\<close> as \<^const>\<open>find\<close>. The read of
  the index and the tests stand before the \<open>try\<close> block.
\<close>

definition checkpointRestore :: "path \<Rightarrow> string option \<Rightarrow> fs \<Rightarrow> outcome \<times> fs" where
  "checkpointRestore projectPath nm fs =
     (let dbPath = getDatabasePath projectPath;
          checkpointDir = getCheckpointsPath projectPath;
          metaPath = path_join checkpointDir ''meta.json''
      in case readMeta fs metaPath of
           None \<Rightarrow> (Failed Uncaught, fs)
         | Some meta \<Rightarrow>
             if length (checkpoints meta) = 0 then (Failed NotFound, fs)
             else
               (case (if truthy nm then find (\<lambda>cp. name cp = the nm) (checkpoints meta)
                      else Some (checkpoints meta ! (length (checkpoints meta) - 1))) of
                  None \<Rightarrow> (Failed NotFound, fs)
                | Some checkpoint \<Rightarrow>
                    let checkpointPath = path_join checkpointDir (file checkpoint)
                    in if \<not> pathExists fs checkpointPath then (Failed MissingFile, fs)
                       else
                         let fs1 = remove dbPath fs;
                             fs2 = remove (path_suffix dbPath ''-journal'') fs1;
                             fs3 = remove (path_suffix dbPath ''-wal'') fs2;
                             fs4 = remove (path_suffix dbPath ''-shm'') fs3
                         in (case copy checkpointPath dbPath fs4 of
                               None \<Rightarrow> (Failed IOFailure, fs4)
                             | Some fs5 \<Rightarrow> (Done, fs5))))"

text \<open>\<open>Array.prototype.findIndex\<close>; \<open>None\<close> stands for \<open>-1\<close>.\<close>

fun findIndex :: "('a \<Rightarrow> bool) \<Rightarrow> 'a list \<Rightarrow> nat option" where
  "findIndex P [] = None"
| "findIndex P (x # xs) = (if P x then Some 0 else map_option Suc (findIndex P xs))"

text \<open>\<open>xs.splice(i, 1)\<close>\<close>

definition splice1 :: "nat \<Rightarrow> 'a list \<Rightarrow> 'a list" where
  "splice1 i xs = take i xs @ drop (Suc i) xs"

text \<open>\<open>checkpointDelete\<close> has no \<open>try\<close> block.\<close>

definition checkpointDelete :: "path \<Rightarrow> string \<Rightarrow> fs \<Rightarrow> outcome \<times> fs" where
  "checkpointDelete projectPath nm fs =
     (let checkpointDir = getCheckpointsPath projectPath;
          metaPath = path_join checkpointDir ''meta.json''
      in case readMeta fs metaPath of
           None \<Rightarrow> (Failed Uncaught, fs)
         | Some meta \<Rightarrow>
             (case findIndex (\<lambda>cp. name cp = nm) (checkpoints meta) of
                None \<Rightarrow> (Failed NotFound, fs)
              | Some index \<Rightarrow>
                  let checkpoint = checkpoints meta ! index;
                      checkpointPath = path_join checkpointDir (file checkpoint);
                      fs1 = remove checkpointPath fs;
                      meta' = meta\<lparr>checkpoints := splice1 index (checkpoints meta)\<rparr>
                  in (case writeMeta metaPath meta' fs1 of
                        None \<Rightarrow> (Failed Uncaught, fs1)
                      | Some fs2 \<Rightarrow> (Done, fs2))))"

section \<open>Configuration document (lib/config.ts)\<close>

text \<open>
  Load and Save touch one file, \<open>blueprint.json\<close> in the project directory. The file
  system they see is the map from a path to the content of the file there.
\<close>

type_synonym documents = "path \<rightharpoonup> content"

definition BLUEPRINT_SCHEMA :: string where
  "BLUEPRINT_SCHEMA = ''https://playground.wordpress.net/blueprint-schema.json''"

definition DEFAULT_BLUEPRINT :: Blueprint where
  "DEFAULT_BLUEPRINT =
     \<lparr>schema = Value BLUEPRINT_SCHEMA,
      landingPage = Absent,
      preferredVersions = Value \<lparr>php = Value ''8.3'', wp = Value ''latest''\<rparr>,
      features = Absent,
      steps = Absent,
      wpsmith = Value \<lparr>port = Value 9400\<rparr>\<rparr>"

subsection \<open>Object spread\<close>

text \<open>
  \<open>{ ...a, ...b }\<close>, one property at a time: a key of \<open>b\<close> wins, also when it holds
  \<open>undefined\<close>; a key absent from \<open>b\<close> keeps what \<open>a\<close> has.
\<close>

definition spread_property :: "'a property \<Rightarrow> 'a property \<Rightarrow> 'a property" where
  "spread_property a b = (case b of Absent \<Rightarrow> a | _ \<Rightarrow> b)"

definition spread_Blueprint :: "Blueprint \<Rightarrow> Blueprint \<Rightarrow> Blueprint" where
  "spread_Blueprint a b =
     \<lparr>schema = spread_property (schema a) (schema b),
      landingPage = spread_property (landingPage a) (landingPage b),
      preferredVersions = spread_property (preferredVersions a) (preferredVersions b),
      features = spread_property (features a) (features b),
      steps = spread_property (steps a) (steps b),
      wpsmith = spread_property (wpsmith a) (wpsmith b)\<rparr>"

text \<open>
  \<open>{ ...x.preferredVersions, ...y.preferredVersions }\<close>: spreading \<open>undefined\<close> adds
  no key, so the result is always an object.
\<close>

definition own_Versions :: "Versions property \<Rightarrow> Versions" where
  "own_Versions v = (case v of Value x \<Rightarrow> x | _ \<Rightarrow> \<lparr>php = Absent, wp = Absent\<rparr>)"

definition spread_Versions :: "Versions property \<Rightarrow> Versions property \<Rightarrow> Versions" where
  "spread_Versions a b =
     \<lparr>php = spread_property (php (own_Versions a)) (php (own_Versions b)),
      wp = spread_property (wp (own_Versions a)) (wp (own_Versions b))\<rparr>"

definition own_Wpsmith :: "Wpsmith property \<Rightarrow> Wpsmith" where
  "own_Wpsmith v = (case v of Value x \<Rightarrow> x | _ \<Rightarrow> \<lparr>port = Absent\<rparr>)"

definition spread_Wpsmith :: "Wpsmith property \<Rightarrow> Wpsmith property \<Rightarrow> Wpsmith" where
  "spread_Wpsmith a b = \<lparr>port = spread_property (port (own_Wpsmith a)) (port (own_Wpsmith b))\<rparr>"

subsection \<open>JSON text\<close>

text \<open>
  A JSON text has no \<open>undefined\<close>: \<open>JSON.stringify\<close> leaves out a key that holds it,
  at every level, and \<open>JSON.parse\<close> never produces it.
\<close>

definition json_property :: "('a \<Rightarrow> 'a) \<Rightarrow> 'a property \<Rightarrow> 'a property" where
  "json_property f p = (case p of Value v \<Rightarrow> Value (f v) | _ \<Rightarrow> Absent)"

definition json_Versions :: "Versions \<Rightarrow> Versions" where
  "json_Versions v = \<lparr>php = json_property id (php v), wp = json_property id (wp v)\<rparr>"

definition json_Features :: "Features \<Rightarrow> Features" where
  "json_Features f = \<lparr>networking = json_property id (networking f)\<rparr>"

definition json_Wpsmith :: "Wpsmith \<Rightarrow> Wpsmith" where
  "json_Wpsmith w = \<lparr>port = json_property id (port w)\<rparr>"

definition json_Blueprint :: "Blueprint \<Rightarrow> Blueprint" where
  "json_Blueprint b =
     \<lparr>schema = json_property id (schema b),
      landingPage = json_property id (landingPage b),
      preferredVersions = json_property json_Versions (preferredVersions b),
      features = json_property json_Features (features b),
      steps = json_property id (steps b),
      wpsmith = json_property json_Wpsmith (wpsmith b)\<rparr>"

text \<open>A JSON value with none of the keys of a configuration document.\<close>

definition no_keys :: Blueprint where
  "no_keys =
     \<lparr>schema = Absent, landingPage = Absent, preferredVersions = Absent,
      features = Absent, steps = Absent, wpsmith = Absent\<rparr>"

text \<open>
  \<open>fs.readJSON(blueprintPath)\<close>; \<open>None\<close> when it throws, on a missing file and on
  content that does not parse. A JSON text that parses and is not a configuration
  document is returned as it is; the spread in \<open>loadBlueprint\<close> takes none of the keys
  of a configuration document from it.
\<close>

definition readBlueprint :: "documents \<Rightarrow> path \<Rightarrow> Blueprint option" where
  "readBlueprint fs blueprintPath =
     (case fs blueprintPath of
        Some (BlueprintDoc b) \<Rightarrow> Some (json_Blueprint b)
      | Some (MetaDoc _) \<Rightarrow> Some no_keys
      | Some (OtherJson _) \<Rightarrow> Some no_keys
      | _ \<Rightarrow> None)"


subsection \<open>Load and save\<close>

definition loadBlueprint :: "path \<Rightarrow> documents \<Rightarrow> Blueprint" where
  "loadBlueprint projectPath fs =
     (let blueprintPath = path_join projectPath ''blueprint.json''
      in case readBlueprint fs blueprintPath of
           Some blueprint \<Rightarrow> spread_Blueprint DEFAULT_BLUEPRINT blueprint
         | None \<Rightarrow> DEFAULT_BLUEPRINT)"


subsection \<open>Plugin steps\<close>

text \<open>\<open>step.step\<close>, the tag of a step.\<close>

fun step_tag :: "BlueprintStep \<Rightarrow> string" where
  "step_tag (Login _ _) = ''login''"
| "step_tag (InstallPlugin _) = ''installPlugin''"
| "step_tag (InstallTheme _) = ''installTheme''"
| "step_tag (SetSiteOptions _) = ''setSiteOptions''"
| "step_tag (RunPHP _) = ''runPHP''"
| "step_tag (OtherStep tag _) = tag"

text \<open>\<open>'pluginData' in step\<close>\<close>

fun hasPluginData :: "BlueprintStep \<Rightarrow> bool" where
  "hasPluginData (InstallPlugin _) = True"
| "hasPluginData (OtherStep _ NoPluginData) = False"
| "hasPluginData (OtherStep _ _) = True"
| "hasPluginData _ = False"

text \<open>The object that \<open>step.pluginData\<close> holds, where it holds one.\<close>

fun pluginData :: "BlueprintStep \<Rightarrow> PluginData option" where
  "pluginData (InstallPlugin pd) = Some pd"
| "pluginData (OtherStep _ (ObjectPluginData pd)) = Some pd"
| "pluginData _ = None"

datatype exception = TypeError

text \<open>
  \<open>step.pluginData.slug\<close>: the slug of an object, \<open>undefined\<close> on a number, a string
  or a boolean, and a \<open>TypeError\<close> on \<open>null\<close> and \<open>undefined\<close>.
\<close>

fun pluginDataSlug :: "BlueprintStep \<Rightarrow> exception + string option" where
  "pluginDataSlug (InstallPlugin pd) = Inr (slug pd)"
| "pluginDataSlug (OtherStep _ (ObjectPluginData pd)) = Inr (slug pd)"
| "pluginDataSlug (OtherStep _ PrimitivePluginData) = Inr None"
| "pluginDataSlug _ = Inl TypeError"

text \<open>\<open>steps.map(step => step.pluginData.slug)\<close> stops at the first exception.\<close>

fun mapSlugs :: "BlueprintStep list \<Rightarrow> exception + string option list" where
  "mapSlugs [] = Inr []"
| "mapSlugs (step # rest) =
     (case pluginDataSlug step of
        Inl e \<Rightarrow> Inl e
      | Inr s \<Rightarrow> (case mapSlugs rest of Inl e \<Rightarrow> Inl e | Inr ss \<Rightarrow> Inr (s # ss)))"

definition getPluginsFromBlueprint :: "Blueprint \<Rightarrow> exception + string list" where
  "getPluginsFromBlueprint blueprint =
     (case steps blueprint of
        Value ss \<Rightarrow>
          (case mapSlugs
                  (filter (\<lambda>step. step_tag step = ''installPlugin'' \<and> hasPluginData step) ss) of
             Inl e \<Rightarrow> Inl e
           | Inr slugs \<Rightarrow> Inr (map the (filter truthy slugs)))
      | _ \<Rightarrow> Inr [])"

definition createPluginSteps :: "string list \<Rightarrow> BlueprintStep list" where
  "createPluginSteps plugins =
     map (\<lambda>s. InstallPlugin \<lparr>resource = WordpressOrgPlugins, slug = Some s, url = None\<rparr>) plugins"

section \<open>Vocabulary of the specification\<close>

text \<open>The index file, the backing file of a record, and the index as a command reads it.\<close>

definition metaPath :: "path \<Rightarrow> path" where
  "metaPath projectPath = path_join (getCheckpointsPath projectPath) ''meta.json''"

definition checkpointPath :: "path \<Rightarrow> string \<Rightarrow> path" where
  "checkpointPath projectPath f = path_join (getCheckpointsPath projectPath) f"

definition snapshotIndex :: "path \<Rightarrow> fs \<Rightarrow> Checkpoint list" where
  "snapshotIndex projectPath fs =
     (case readMeta fs (metaPath projectPath) of
        Some meta \<Rightarrow> checkpoints meta
      | None \<Rightarrow> [])"

text \<open>The index file is missing, unreadable, or holds an index.\<close>

definition indexReadable :: "path \<Rightarrow> fs \<Rightarrow> bool" where
  "indexReadable projectPath fs = (readMeta fs (metaPath projectPath) \<noteq> None)"

text \<open>The live data file and the sidecar files that a restore removes.\<close>

definition liveFiles :: "path \<Rightarrow> path set" where
  "liveFiles projectPath =
     {getDatabasePath projectPath,
      path_suffix (getDatabasePath projectPath) ''-journal'',
      path_suffix (getDatabasePath projectPath) ''-wal'',
      path_suffix (getDatabasePath projectPath) ''-shm''}"

text \<open>A path is the place of a live file or lies below it.\<close>

definition underLive :: "path \<Rightarrow> path \<Rightarrow> bool" where
  "underLive projectPath q = (\<exists>l \<in> liveFiles projectPath. prefix l q)"

text \<open>
  The data model's rule for a record: its \<open>file\<close> is derived from its \<open>name\<close>, as
  \<open>checkpointCreate\<close> writes it.
\<close>

definition derived_files :: "Checkpoint list \<Rightarrow> bool" where
  "derived_files cps = list_all (\<lambda>cp. file cp = name cp @ ''.sqlite'') cps"

section \<open>Example data\<close>

definition example_project :: path where
  "example_project = [''site'']"

definition example_record :: "string \<Rightarrow> Checkpoint" where
  "example_record n = \<lparr>name = n, created = ''2024-01-01T00:00:00.000Z'',
     file = n @ ''.sqlite'', description = None\<rparr>"

text \<open>The directories of a project that has run and has no snapshot directory yet.\<close>

definition example_dirs :: fs where
  "example_dirs =
     (\<lambda>q. if prefix q (example_project @ [''wp-content'', ''database'']) then Some Dir else None)"

text \<open>Such a project with an empty live data file.\<close>

definition store_fresh :: fs where
  "store_fresh = example_dirs(getDatabasePath example_project \<mapsto> File (Raw []))"




text \<open>An index of two records; the backing file of \<open>x\<close> is gone, that of \<open>y\<close> is there.\<close>

definition store_xy :: fs where
  "store_xy =
     example_dirs
      (getDatabasePath example_project \<mapsto> File (Raw ''live''),
       getCheckpointsPath example_project \<mapsto> Dir,
       metaPath example_project \<mapsto>
         File (MetaDoc \<lparr>checkpoints = [example_record ''x'', example_record ''y'']\<rparr>),
       checkpointPath example_project ''y.sqlite'' \<mapsto> File (Raw ''old''))"

text \<open>The same with the records in the other order.\<close>

definition store_yx :: fs where
  "store_yx =
     example_dirs
      (getDatabasePath example_project \<mapsto> File (Raw ''live''),
       getCheckpointsPath example_project \<mapsto> Dir,
       metaPath example_project \<mapsto>
         File (MetaDoc \<lparr>checkpoints = [example_record ''y'', example_record ''x'']\<rparr>),
       checkpointPath example_project ''y.sqlite'' \<mapsto> File (Raw ''old''))"



text \<open>A document whose \<open>preferredVersions\<close> names the \<open>wp\<close> version only.\<close>

definition example_wp_only :: Blueprint where
  "example_wp_only =
     \<lparr>schema = Absent, landingPage = Absent,
      preferredVersions = Value \<lparr>php = Absent, wp = Value ''6.7''\<rparr>,
      features = Absent, steps = Absent, wpsmith = Absent\<rparr>"


section \<open>Facts about paths\<close>

lemma split_sep_nonempty: "split_sep s \<noteq> []"
  by (induction s) (auto split: list.splits)

lemma split_sep_plain: "CHR ''/'' \<notin> set t \<Longrightarrow> split_sep t = [t]"
  by (induction t) auto

lemma split_sep_append:
  "CHR ''/'' \<notin> set t \<Longrightarrow> split_sep (s @ t) = butlast (split_sep s) @ [last (split_sep s) @ t]"
proof (induction s)
  case Nil
  then show ?case by (simp add: split_sep_plain)
next
  case (Cons c s)
  then show ?case
    using split_sep_nonempty [of s]
    by (cases "split_sep s") auto
qed

lemma getDatabasePath_eq:
  "getDatabasePath p = p @ [''wp-content'', ''database'', ''.ht.sqlite'']"
  by (simp add: getDatabasePath_def path_join_def resolve_segment_def)

lemma getCheckpointsPath_eq:
  "getCheckpointsPath p = p @ [''wp-content'', ''database'', ''checkpoints'']"
  by (simp add: getCheckpointsPath_def path_join_def resolve_segment_def)

lemma metaPath_eq:
  "metaPath p = p @ [''wp-content'', ''database'', ''checkpoints'', ''meta.json'']"
  by (simp add: metaPath_def getCheckpointsPath_eq path_join_def resolve_segment_def)

lemma sidecar_eq:
  "path_suffix (getDatabasePath p) s = p @ [''wp-content'', ''database'', ''.ht.sqlite'' @ s]"
  by (simp add: getDatabasePath_eq path_suffix_def butlast_append)

text \<open>
  Whatever the name, the path of a snapshot ends in a segment with the extension
  \<open>.sqlite\<close>; so it is neither the index file nor a sidecar of the live data file. It
  can be the live data file itself (the name \<open>../.ht\<close>).
\<close>

lemma path_join_sqlite:
  "\<exists>q w. path_join d (n @ ''.sqlite'') = q @ [w @ ''.sqlite'']"
proof -
  have "split_sep (n @ ''.sqlite'') = butlast (split_sep n) @ [last (split_sep n) @ ''.sqlite'']"
    by (rule split_sep_append) simp
  then have "path_join d (n @ ''.sqlite'') =
      foldl resolve_segment d (butlast (split_sep n)) @ [last (split_sep n) @ ''.sqlite'']"
    by (simp add: path_join_def resolve_segment_def)
  then show ?thesis by blast
qed

lemma sqlite_last: "q @ [w @ ''.sqlite''] = r @ [t] \<Longrightarrow> t \<noteq> [] \<and> last t = CHR ''e''"
  by auto

lemma checkpointPath_not_meta: "checkpointPath p (n @ ''.sqlite'') \<noteq> metaPath p"
proof
  assume a: "checkpointPath p (n @ ''.sqlite'') = metaPath p"
  obtain q w where "checkpointPath p (n @ ''.sqlite'') = q @ [w @ ''.sqlite'']"
    unfolding checkpointPath_def using path_join_sqlite by blast
  with a have "q @ [w @ ''.sqlite''] =
      (p @ [''wp-content'', ''database'', ''checkpoints'']) @ [''meta.json'']"
    by (simp add: metaPath_eq)
  from sqlite_last [OF this] show False by simp
qed

lemma checkpointPath_not_sidecar:
  "s \<in> {''-journal'', ''-wal'', ''-shm''} \<Longrightarrow>
     checkpointPath p (n @ ''.sqlite'') \<noteq> path_suffix (getDatabasePath p) s"
proof
  assume s: "s \<in> {''-journal'', ''-wal'', ''-shm''}"
  assume a: "checkpointPath p (n @ ''.sqlite'') = path_suffix (getDatabasePath p) s"
  obtain q w where "checkpointPath p (n @ ''.sqlite'') = q @ [w @ ''.sqlite'']"
    unfolding checkpointPath_def using path_join_sqlite by blast
  with a have "q @ [w @ ''.sqlite''] =
      (p @ [''wp-content'', ''database'']) @ [''.ht.sqlite'' @ s]"
    by (simp add: sidecar_eq)
  from sqlite_last [OF this] s show False by auto
qed

lemma db_not_meta: "getDatabasePath p \<noteq> metaPath p"
  by (simp add: getDatabasePath_eq metaPath_eq)

lemma sidecar_not_meta: "path_suffix (getDatabasePath p) s \<noteq> metaPath p"
  by (simp add: metaPath_eq sidecar_eq)

lemma ancestors_set: "set (ancestors p) = {q. strict_prefix q p}"
proof (induction p)
  case Nil
  then show ?case by simp
next
  case (Cons s p)
  show ?case
  proof (rule set_eqI)
    fix q
    show "q \<in> set (ancestors (s # p)) \<longleftrightarrow> q \<in> {q. strict_prefix q (s # p)}"
      using Cons by (cases q) (auto simp: strict_prefix_def)
  qed
qed

lemma underFile_iff: "underFile fs p \<longleftrightarrow> (\<exists>q. strict_prefix q p \<and> isFile fs q)"
  by (auto simp: underFile_def list_ex_iff ancestors_set)

lemma isFile_Dir: "fs q = Some Dir \<Longrightarrow> \<not> isFile fs q"
  by (simp add: isFile_def)

lemma isFile_None: "fs q = None \<Longrightarrow> \<not> isFile fs q"
  by (simp add: isFile_def)

text \<open>The places of the project, relative to one another.\<close>

lemma live_eq:
  "l \<in> liveFiles p \<Longrightarrow> \<exists>s. l = (p @ [''wp-content'', ''database'']) @ [''.ht.sqlite'' @ s]"
  unfolding liveFiles_def using getDatabasePath_eq [of p] sidecar_eq [of p]
  by auto

lemma db_live: "getDatabasePath p \<in> liveFiles p"
  by (simp add: liveFiles_def)

lemma db_ancestor: "strict_prefix q (getDatabasePath p) \<Longrightarrow> prefix q (getCheckpointsPath p)"
proof -
  assume "strict_prefix q (getDatabasePath p)"
  then have "strict_prefix q ((p @ [''wp-content'', ''database'']) @ [''.ht.sqlite''])"
    by (simp add: getDatabasePath_eq)
  then have "prefix q (p @ [''wp-content'', ''database''])"
    unfolding strict_prefix_def prefix_snoc by auto
  then have "prefix q ((p @ [''wp-content'', ''database'']) @ [''checkpoints''])"
    by (rule prefix_prefix)
  then show ?thesis by (simp add: getCheckpointsPath_eq)
qed

lemma live_not_above_dir:
  assumes "l \<in> liveFiles p" "prefix q (getCheckpointsPath p)"
  shows "\<not> prefix l q"
proof
  assume "prefix l q"
  with assms(2) have "prefix l (getCheckpointsPath p)" by (metis prefix_order.trans)
  moreover from live_eq [OF assms(1)] obtain s
    where "l = (p @ [''wp-content'', ''database'']) @ [''.ht.sqlite'' @ s]" by blast
  ultimately show False by (simp add: getCheckpointsPath_eq)
qed

lemma not_underLive_above_dir: "prefix q (getCheckpointsPath p) \<Longrightarrow> \<not> underLive p q"
  using live_not_above_dir by (auto simp: underLive_def)

lemma not_underLive_meta: "\<not> underLive p (metaPath p)"
proof
  assume "underLive p (metaPath p)"
  then obtain l where l: "l \<in> liveFiles p" "prefix l (metaPath p)"
    by (auto simp: underLive_def)
  from live_eq [OF l(1)] obtain s
    where "l = (p @ [''wp-content'', ''database'']) @ [''.ht.sqlite'' @ s]" by blast
  with l(2) show False by (simp add: metaPath_eq)
qed

lemma meta_not_above_dir: "\<not> prefix (metaPath p) (getCheckpointsPath p)"
  by (simp add: metaPath_eq getCheckpointsPath_eq)

lemma db_not_above_dir: "\<not> prefix (getDatabasePath p) (getCheckpointsPath p)"
  by (simp add: getDatabasePath_eq getCheckpointsPath_eq)

lemma meta_parent: "butlast (metaPath p) = getCheckpointsPath p"
  by (simp add: metaPath_eq getCheckpointsPath_eq butlast_append)

lemma above_meta: "prefix q (metaPath p) \<Longrightarrow> q = metaPath p \<or> prefix q (getCheckpointsPath p)"
proof -
  assume "prefix q (metaPath p)"
  then have "prefix q (getCheckpointsPath p @ [''meta.json''])"
    by (simp add: metaPath_eq getCheckpointsPath_eq)
  then show ?thesis
    unfolding prefix_snoc by (auto simp: metaPath_eq getCheckpointsPath_eq)
qed

text \<open>The paths of the example project, for evaluation.\<close>

lemmas example_paths =
  example_project_def getDatabasePath_eq getCheckpointsPath_eq metaPath_eq path_suffix_def
  checkpointPath_def path_join_def resolve_segment_def

section \<open>Facts about the file system\<close>

text \<open>What a copy that went through has done.\<close>

lemma copy_Some:
  assumes "copy src dest fs = Some fs'"
  shows "fs' dest = fs src"
    and "fs src \<noteq> None"
    and "src \<noteq> dest"
    and "\<not> underFile fs dest"
    and "\<not> strict_prefix src dest"
    and "\<And>q. \<not> prefix dest q \<Longrightarrow>
           fs' q = (if strict_prefix q dest then Some Dir else fs q)"
proof -
  show "fs src \<noteq> None" "src \<noteq> dest" "\<not> underFile fs dest"
    using assms by (auto simp: copy_def split: option.splits node.splits if_splits)
  show "fs' dest = fs src"
    using assms by (auto simp: copy_def split: option.splits node.splits if_splits)
  show "\<not> strict_prefix src dest"
  proof (cases "fs src")
    case None
    then show ?thesis using assms by (simp add: copy_def)
  next
    case (Some n)
    show ?thesis
    proof (cases n)
      case (File c)
      with Some have "isFile fs src" by (simp add: isFile_def)
      moreover have "\<not> underFile fs dest"
        using assms Some File by (auto simp: copy_def split: if_splits)
      ultimately show ?thesis by (auto simp: underFile_iff)
    next
      case Dir
      with Some assms show ?thesis
        by (auto simp: copy_def strict_prefix_def split: if_splits)
    qed
  qed
  show "fs' q = (if strict_prefix q dest then Some Dir else fs q)" if "\<not> prefix dest q" for q
    using assms that
    by (auto simp: copy_def split: option.splits node.splits if_splits)
qed

text \<open>A file is copied to a free place whose ancestors are no files.\<close>

lemma copy_File:
  assumes "fs src = Some (File c)" "src \<noteq> dest" "\<not> underFile fs dest" "fs dest = None"
  shows "\<exists>fs'. copy src dest fs = Some fs' \<and> fs' dest = Some (File c)"
  using assms by (simp add: copy_def)

text \<open>The four removals of a restore take away the live files and what is below them.\<close>

lemma remove_live:
  "remove (path_suffix (getDatabasePath p) ''-shm'')
     (remove (path_suffix (getDatabasePath p) ''-wal'')
        (remove (path_suffix (getDatabasePath p) ''-journal'')
           (remove (getDatabasePath p) fs))) =
   (\<lambda>q. if underLive p q then None else fs q)"
  by (rule ext) (simp add: remove_def underLive_def liveFiles_def)

section \<open>Facts about the snapshot store\<close>

lemma meta_update: "(meta :: CheckpointMeta)\<lparr>checkpoints := cps\<rparr> = \<lparr>checkpoints = cps\<rparr>"
  by (cases meta) simp

lemma snapshotIndex_MetaDoc:
  "fs (metaPath p) = Some (File (MetaDoc \<lparr>checkpoints = cps\<rparr>)) \<Longrightarrow> snapshotIndex p fs = cps"
  by (simp add: snapshotIndex_def readMeta_def)

lemma readMeta_cong: "fs' q = fs q \<Longrightarrow> readMeta fs' q = readMeta fs q"
  by (simp add: readMeta_def)

lemma readMeta_snapshotIndex:
  "readMeta fs (metaPath p) = Some meta \<Longrightarrow> checkpoints meta = snapshotIndex p fs"
  by (simp add: snapshotIndex_def)

lemma snapshotIndex_nonempty_readable:
  "snapshotIndex p fs \<noteq> [] \<Longrightarrow> readMeta fs (metaPath p) = Some \<lparr>checkpoints = snapshotIndex p fs\<rparr>"
  by (cases "readMeta fs (metaPath p)") (simp_all add: snapshotIndex_def)

lemma indexReadable_readMeta:
  "indexReadable p fs \<Longrightarrow> readMeta fs (metaPath p) = Some \<lparr>checkpoints = snapshotIndex p fs\<rparr>"
  by (cases "readMeta fs (metaPath p)") (simp_all add: snapshotIndex_def indexReadable_def)

text \<open>What a successful \<open>checkpointCreate\<close> found and what it left.\<close>

lemma checkpointCreate_Done:
  assumes create: "checkpointCreate p nm d ts now fs = (Done, fsR)"
    and n: "n = (if truthy nm then the nm else ''checkpoint-'' @ ts)"
  shows "fs (getDatabasePath p) \<noteq> None"
    and "fsR (getDatabasePath p) = fs (getDatabasePath p)"
    and "fsR (checkpointPath p (n @ ''.sqlite'')) = fs (getDatabasePath p)"
    and "\<And>q. prefix q (getCheckpointsPath p) \<Longrightarrow> fsR q = Some Dir"
    and "indexReadable p fs"
    and "fsR (metaPath p) = Some (File (MetaDoc \<lparr>checkpoints = snapshotIndex p fs @
           [\<lparr>name = n, created = now, file = n @ ''.sqlite'', description = d\<rparr>]\<rparr>))"
    and "\<not> prefix (getDatabasePath p) (checkpointPath p (n @ ''.sqlite''))"
proof -
  let ?db = "getDatabasePath p"
  let ?dir = "getCheckpointsPath p"
  let ?cp = "checkpointPath p (n @ ''.sqlite'')"
  let ?new = "\<lparr>name = n, created = now, file = n @ ''.sqlite'', description = d\<rparr>"
  define fs0 where "fs0 = (\<lambda>q. if prefix q ?dir then Some Dir else fs q)"
  from create n obtain fs1 meta where
    db: "fs ?db \<noteq> None" and
    free: "fs0 ?cp = None" and
    cop: "copy ?db ?cp fs0 = Some fs1" and
    rd: "readMeta fs1 (metaPath p) = Some meta" and
    wr: "writeMeta (metaPath p) (meta\<lparr>checkpoints := checkpoints meta @ [?new]\<rparr>) fs1 = Some fsR"
    unfolding fs0_def
    by (auto simp: checkpointCreate_def Let_def pathExists_def ensureDir_def metaPath_def
        checkpointPath_def split: if_splits option.splits)
  show "fs ?db \<noteq> None" by (rule db)
  have cp_dir: "\<not> prefix ?cp ?dir"
    using free by (auto simp: fs0_def split: if_splits)
  have db0: "fs0 ?db = fs ?db"
    by (simp add: fs0_def db_not_above_dir)
  have cp_db: "\<not> prefix ?cp ?db"
  proof
    assume "prefix ?cp ?db"
    moreover have "?cp \<noteq> ?db" using free db db0 by auto
    ultimately have "strict_prefix ?cp ?db" by (simp add: strict_prefix_def)
    then have "prefix ?cp ?dir" by (rule db_ancestor)
    with cp_dir show False by simp
  qed
  have db_cp: "\<not> prefix ?db ?cp"
    using copy_Some(3,5) [OF cop] by (auto simp: strict_prefix_def)
  then show "\<not> prefix ?db ?cp" .
  have cp_meta: "\<not> prefix ?cp (metaPath p)"
    using above_meta [of ?cp p] checkpointPath_not_meta [of p n] cp_dir by auto
  have fsR: "fsR = fs1(metaPath p \<mapsto> File (MetaDoc (meta\<lparr>checkpoints := checkpoints meta @ [?new]\<rparr>)))"
    and notdir: "fs1 (metaPath p) \<noteq> Some Dir"
    using wr by (auto simp: writeMeta_def split: if_splits)
  have "fs1 (metaPath p) = (if strict_prefix (metaPath p) ?cp then Some Dir else fs0 (metaPath p))"
    by (rule copy_Some(6) [OF cop cp_meta])
  with notdir have "fs1 (metaPath p) = fs0 (metaPath p)"
    by (auto split: if_splits)
  then have meta1: "fs1 (metaPath p) = fs (metaPath p)"
    by (simp add: fs0_def meta_not_above_dir)
  then have rdfs: "readMeta fs (metaPath p) = Some meta"
    using rd readMeta_cong [of fs1 "metaPath p" fs, OF meta1] by simp
  then have idx: "checkpoints meta = snapshotIndex p fs"
    by (simp add: snapshotIndex_def)
  show "indexReadable p fs"
    using rdfs by (simp add: indexReadable_def)
  show "fsR (metaPath p) = Some (File (MetaDoc \<lparr>checkpoints = snapshotIndex p fs @ [?new]\<rparr>))"
    by (simp add: fsR idx meta_update)
  have "fs1 ?db = (if strict_prefix ?db ?cp then Some Dir else fs0 ?db)"
    by (rule copy_Some(6) [OF cop cp_db])
  then have "fs1 ?db = fs ?db"
    using db_cp db0 by (auto simp: strict_prefix_def)
  then show "fsR ?db = fs ?db"
    by (simp add: fsR db_not_meta)
  have "fs1 ?cp = fs0 ?db" by (rule copy_Some(1) [OF cop])
  then show "fsR ?cp = fs ?db"
    using checkpointPath_not_meta [of p n] by (simp add: fsR db0)
  show "fsR q = Some Dir" if q: "prefix q ?dir" for q
  proof -
    have "\<not> prefix ?cp q"
      using q cp_dir by (metis prefix_order.trans)
    then have "fs1 q = (if strict_prefix q ?cp then Some Dir else fs0 q)"
      by (rule copy_Some(6) [OF cop])
    then have "fs1 q = Some Dir" using q by (simp add: fs0_def)
    moreover have "q \<noteq> metaPath p" using q meta_not_above_dir by auto
    ultimately show ?thesis by (simp add: fsR)
  qed
qed

text \<open>
  A restore whose selected record has a file as its backing file, not below a live file,
  and which finds no file among the ancestors of the live data file.
\<close>

lemma checkpointRestore_selected:
  assumes idx: "snapshotIndex p fs \<noteq> []"
    and sel: "(if truthy nm then find (\<lambda>cp. name cp = the nm) (snapshotIndex p fs)
               else Some (last (snapshotIndex p fs))) = Some cp"
    and c: "fs (checkpointPath p (file cp)) = Some (File c)"
    and live: "\<not> underLive p (checkpointPath p (file cp))"
    and above: "\<not> underFile fs (getDatabasePath p)"
  shows "fst (checkpointRestore p nm fs) = Done \<and>
         snd (checkpointRestore p nm fs) (getDatabasePath p) = Some (File c)"
proof -
  let ?db = "getDatabasePath p"
  let ?cp = "checkpointPath p (file cp)"
  let ?fs4 = "\<lambda>q. if underLive p q then None else fs q"
  have l: "snapshotIndex p fs ! (length (snapshotIndex p fs) - 1) = last (snapshotIndex p fs)"
    using idx by (simp add: last_conv_nth)
  have rd: "readMeta fs (metaPath p) = Some \<lparr>checkpoints = snapshotIndex p fs\<rparr>"
    by (rule snapshotIndex_nonempty_readable [OF idx])
  have "underLive p ?db"
    using db_live [of p] by (auto simp: underLive_def)
  then have db4: "?fs4 ?db = None" by simp
  have cp4: "?fs4 ?cp = Some (File c)" using live c by simp
  have ne: "?cp \<noteq> ?db" using live \<open>underLive p ?db\<close> by auto
  have "\<not> underFile ?fs4 ?db"
    using above by (auto simp: underFile_iff isFile_def split: if_splits)
  from copy_File [OF cp4 ne this db4] obtain fs5 where
    "copy ?cp ?db ?fs4 = Some fs5" and r: "fs5 ?db = Some (File c)" by blast
  then have cop: "copy (path_join (getCheckpointsPath p) (file cp)) ?db ?fs4 = Some fs5"
    by (simp add: checkpointPath_def)
  have rd': "readMeta fs (path_join (getCheckpointsPath p) ''meta.json'') =
      Some \<lparr>checkpoints = snapshotIndex p fs\<rparr>"
    using rd by (simp add: metaPath_def)
  have c': "fs (path_join (getCheckpointsPath p) (file cp)) = Some (File c)"
    using c by (simp add: checkpointPath_def)
  show ?thesis
  proof (cases "truthy nm")
    case True
    with sel have "find (\<lambda>cp. name cp = the nm) (snapshotIndex p fs) = Some cp" by simp
    then show ?thesis
      using idx True
      by (simp add: checkpointRestore_def Let_def pathExists_def remove_live rd' c' cop r)
  next
    case False
    with sel l have "snapshotIndex p fs ! (length (snapshotIndex p fs) - 1) = cp" by simp
    then show ?thesis
      using idx False
      by (simp add: checkpointRestore_def Let_def pathExists_def remove_live rd' c' cop r)
  qed
qed

text \<open>
  A snapshot just taken of a live data file, seen from any later state that differs from
  the one the create left only at and below the live files: the index ends with the new
  record, the snapshot file holds the live data of the moment of the create, and the
  ancestors of the live data file are directories.
\<close>

lemma checkpointCreate_later:
  assumes create: "checkpointCreate p nm d ts now fs = (Done, fsR)"
    and n: "n = (if truthy nm then the nm else ''checkpoint-'' @ ts)"
    and live: "fs (getDatabasePath p) = Some (File c)"
    and away: "\<not> underLive p (checkpointPath p (n @ ''.sqlite''))"
    and later: "\<forall>q. \<not> underLive p q \<longrightarrow> fs2 q = fsR q"
  shows "fs2 (checkpointPath p (n @ ''.sqlite'')) = Some (File c)"
    and "snapshotIndex p fs2 = snapshotIndex p fs @
      [\<lparr>name = n, created = now, file = n @ ''.sqlite'', description = d\<rparr>]"
    and "\<not> underFile fs2 (getDatabasePath p)"
proof -
  note cr = checkpointCreate_Done [OF create n]
  show "fs2 (checkpointPath p (n @ ''.sqlite'')) = Some (File c)"
    using later away cr(3) live by simp
  have "fs2 (metaPath p) = fsR (metaPath p)"
    using later not_underLive_meta by simp
  then show "snapshotIndex p fs2 = snapshotIndex p fs @
      [\<lparr>name = n, created = now, file = n @ ''.sqlite'', description = d\<rparr>]"
    using cr(6) by (simp add: snapshotIndex_MetaDoc)
  show "\<not> underFile fs2 (getDatabasePath p)"
  proof
    assume "underFile fs2 (getDatabasePath p)"
    then obtain q where q: "strict_prefix q (getDatabasePath p)" "isFile fs2 q"
      by (auto simp: underFile_iff)
    from q(1) have above: "prefix q (getCheckpointsPath p)" by (rule db_ancestor)
    then have "fs2 q = fsR q"
      using later not_underLive_above_dir by simp
    with cr(4) [OF above] q(2) show False
      by (simp add: isFile_def)
  qed
qed

lemma find_append_cases:
  "find P (xs @ ys) = (case find P xs of None \<Rightarrow> find P ys | Some x \<Rightarrow> Some x)"
  by (induction xs) auto

lemma findIndex_None: "findIndex P xs = None \<longleftrightarrow> (\<forall>x \<in> set xs. \<not> P x)"
  by (induction xs) auto

lemma findIndex_Some:
  "findIndex P xs = Some i \<Longrightarrow> i < length xs \<and> P (xs ! i)"
proof (induction xs arbitrary: i)
  case Nil
  then show ?case by simp
next
  case (Cons x xs)
  then show ?case by (auto split: if_splits)
qed

text \<open>
  The rule that a record's file is derived from its name holds of the empty index and is
  kept by every command that writes the index.
\<close>

lemma derived_files_empty: "derived_files []"
  by (simp add: derived_files_def)

lemma derived_files_create:
  assumes "derived_files (snapshotIndex p fs)"
    and "checkpointCreate p nm d ts now fs = (Done, fs')"
  shows "derived_files (snapshotIndex p fs')"
  using checkpointCreate_Done(6) [OF assms(2) refl] assms(1)
  by (simp add: snapshotIndex_MetaDoc derived_files_def)

lemma derived_files_delete:
  assumes "derived_files (snapshotIndex p fs)"
    and "checkpointDelete p n fs = (Done, fs')"
  shows "derived_files (snapshotIndex p fs')"
proof -
  from assms(2) obtain meta i where
    rd: "readMeta fs (metaPath p) = Some meta" and
    fs': "fs' (metaPath p) = Some (File (MetaDoc \<lparr>checkpoints = splice1 i (checkpoints meta)\<rparr>))"
    by (auto simp: checkpointDelete_def Let_def writeMeta_def metaPath_def meta_update
        split: option.splits if_splits)
  have "set (splice1 i (snapshotIndex p fs)) \<subseteq> set (snapshotIndex p fs)"
    unfolding splice1_def
    by (metis Un_least set_append set_drop_subset set_take_subset)
  with assms(1) show ?thesis
    using snapshotIndex_MetaDoc [of fs' p, OF fs'] readMeta_snapshotIndex [OF rd]
    by (auto simp: derived_files_def list_all_iff)
qed

text \<open>A name without a separator puts the snapshot in the snapshot directory.\<close>

lemma plain_name_away:
  assumes "CHR ''/'' \<notin> set n"
  shows "\<not> underLive p (checkpointPath p (n @ ''.sqlite''))"
proof
  assume "underLive p (checkpointPath p (n @ ''.sqlite''))"
  then obtain l where l: "l \<in> liveFiles p" "prefix l (checkpointPath p (n @ ''.sqlite''))"
    by (auto simp: underLive_def)
  have "split_sep (n @ ''.sqlite'') = [n @ ''.sqlite'']"
    using assms by (intro split_sep_plain) simp
  moreover have "n @ ''.sqlite'' \<noteq> ''.''" "n @ ''.sqlite'' \<noteq> ''..''"
    by (auto simp: append_eq_Cons_conv)
  ultimately have "checkpointPath p (n @ ''.sqlite'') = getCheckpointsPath p @ [n @ ''.sqlite'']"
    by (simp add: checkpointPath_def path_join_def resolve_segment_def)
  moreover from live_eq [OF l(1)] obtain s
    where "l = (p @ [''wp-content'', ''database'']) @ [''.ht.sqlite'' @ s]" by blast
  ultimately show False
    using l(2) by (simp add: getCheckpointsPath_eq)
qed

text \<open>
  A name that resolves below a sidecar of the live data file: the create goes through,
  the restore removes the snapshot with the sidecar and loses the live data file.
\<close>

lemma snapshot_below_sidecar_lost:
  "fst (checkpointCreate example_project (Some ''../.ht.sqlite-wal/x'') None ''0'' ''t0''
         store_fresh) = Done \<and>
   fst (checkpointRestore example_project (Some ''../.ht.sqlite-wal/x'')
         (snd (checkpointCreate example_project (Some ''../.ht.sqlite-wal/x'') None ''0'' ''t0''
                store_fresh))) = Failed IOFailure \<and>
   snd (checkpointRestore example_project (Some ''../.ht.sqlite-wal/x'')
         (snd (checkpointCreate example_project (Some ''../.ht.sqlite-wal/x'') None ''0'' ''t0''
                store_fresh))) (getDatabasePath example_project) = None"
  by (simp add: checkpointCreate_def checkpointRestore_def store_fresh_def example_dirs_def
      pathExists_def ensureDir_def underFile_def isFile_def copy_def remove_def readMeta_def
      writeMeta_def Let_def example_paths)




section \<open>Claims about the snapshot store\<close>

text \<open>
  C1 (round trip). Create of a live data file under a name, then Restore under that
  name, leaves the live data file with exactly the content it had when Create ran,
  whatever that content was (the empty file included), and whatever happened at and
  below the live files in between. The index before the create follows the data model
  (each record's file is derived from its name), and the snapshot is not put below one of
  the live files, which a restore removes; no name without a separator does that.
\<close>

theorem create_restore_roundtrip:
  assumes "n \<noteq> []"
    and "fs (getDatabasePath p) = Some (File c)"
    and "checkpointCreate p (Some n) d ts now fs = (Done, fs1)"
    and "derived_files (snapshotIndex p fs)"
    and "\<not> underLive p (checkpointPath p (n @ ''.sqlite''))"
    and "\<forall>q. \<not> underLive p q \<longrightarrow> fs2 q = fs1 q"
  shows "fst (checkpointRestore p (Some n) fs2) = Done \<and>
         snd (checkpointRestore p (Some n) fs2) (getDatabasePath p) = Some (File c)"
proof -
  let ?new = "\<lparr>name = n, created = now, file = n @ ''.sqlite'', description = d\<rparr>"
  have nm: "n = (if truthy (Some n) then the (Some n) else ''checkpoint-'' @ ts)"
    using assms(1) by simp
  note later = checkpointCreate_later [OF assms(3) nm assms(2) assms(5) assms(6)]
  have idx2: "snapshotIndex p fs2 = snapshotIndex p fs @ [?new]"
    by (rule later(2))
  obtain cp where sel: "find (\<lambda>cp. name cp = n) (snapshotIndex p fs2) = Some cp"
    and cpfile: "file cp = n @ ''.sqlite''"
  proof (cases "find (\<lambda>cp. name cp = n) (snapshotIndex p fs)")
    case None
    then have "find (\<lambda>cp. name cp = n) (snapshotIndex p fs2) = Some ?new"
      by (simp add: idx2 find_append_cases)
    then show ?thesis using that by simp
  next
    case (Some cp)
    then have "find (\<lambda>cp. name cp = n) (snapshotIndex p fs2) = Some cp"
      by (simp add: idx2 find_append_cases)
    moreover from Some assms(4) have "file cp = n @ ''.sqlite''"
      by (auto simp: find_Some_iff derived_files_def list_all_iff)
    ultimately show ?thesis using that by simp
  qed
  have nonempty: "snapshotIndex p fs2 \<noteq> []" by (simp add: idx2)
  show ?thesis
    using sel assms(1,5) later(1,3) cpfile
    by (intro checkpointRestore_selected [OF nonempty, where cp = cp]) simp_all
qed

theorem create_restore_roundtrip_witness:
  "store_fresh (getDatabasePath example_project) = Some (File (Raw [])) \<and>
   checkpointCreate example_project (Some ''x'') None ''0'' ''t0'' store_fresh =
     (Done, snd (checkpointCreate example_project (Some ''x'') None ''0'' ''t0'' store_fresh)) \<and>
   derived_files (snapshotIndex example_project store_fresh) \<and>
   fst (checkpointRestore example_project (Some ''x'')
         ((snd (checkpointCreate example_project (Some ''x'') None ''0'' ''t0'' store_fresh))
            (getDatabasePath example_project \<mapsto> File (Raw ''changed'')))) = Done \<and>
   snd (checkpointRestore example_project (Some ''x'')
         ((snd (checkpointCreate example_project (Some ''x'') None ''0'' ''t0'' store_fresh))
            (getDatabasePath example_project \<mapsto> File (Raw ''changed''))))
     (getDatabasePath example_project) = Some (File (Raw []))"
proof -
  let ?fs1 = "snd (checkpointCreate example_project (Some ''x'') None ''0'' ''t0'' store_fresh)"
  have "fst (checkpointCreate example_project (Some ''x'') None ''0'' ''t0'' store_fresh) = Done"
    by (simp add: checkpointCreate_def store_fresh_def example_dirs_def pathExists_def
        ensureDir_def underFile_def isFile_def copy_def readMeta_def writeMeta_def Let_def
        example_paths)
  then have create: "checkpointCreate example_project (Some ''x'') None ''0'' ''t0'' store_fresh =
      (Done, ?fs1)"
    by (metis prod.collapse)
  have wf: "derived_files (snapshotIndex example_project store_fresh)"
    by (simp add: derived_files_def snapshotIndex_def readMeta_def store_fresh_def
        example_dirs_def example_paths)
  have later: "\<forall>q. \<not> underLive example_project q \<longrightarrow>
      (?fs1(getDatabasePath example_project \<mapsto> File (Raw ''changed''))) q = ?fs1 q"
    using db_live [of example_project] by (auto simp: underLive_def)
  have live: "store_fresh (getDatabasePath example_project) = Some (File (Raw []))"
    by (simp add: store_fresh_def)
  have name: "''x'' \<noteq> []" by simp
  have away: "\<not> underLive example_project (checkpointPath example_project (''x'' @ ''.sqlite''))"
    by (rule plain_name_away) simp
  note concl = create_restore_roundtrip [OF name live create wf away later]
  show ?thesis
    by (rule conjI [OF live conjI [OF create conjI [OF wf concl]]])
qed



text \<open>
  C7 (restore failures). Restore fails with NotFound when the index is empty and when a
  name is given that no record carries; it fails with MissingFile when the selected
  record is there and nothing is at its backing path. Each of these failures leaves the
  whole file system, the live data file with it, as it was. The index file, where it is
  a JSON text, holds an index.
\<close>

theorem restore_failures:
  "(indexReadable p fs \<and> snapshotIndex p fs = [] \<longrightarrow>
      checkpointRestore p nm fs = (Failed NotFound, fs)) \<and>
   (indexReadable p fs \<and> n \<noteq> [] \<and> (\<forall>cp \<in> set (snapshotIndex p fs). name cp \<noteq> n) \<longrightarrow>
      checkpointRestore p (Some n) fs = (Failed NotFound, fs)) \<and>
   (n \<noteq> [] \<and> find (\<lambda>cp. name cp = n) (snapshotIndex p fs) = Some cp \<and>
    fs (checkpointPath p (file cp)) = None \<longrightarrow>
      checkpointRestore p (Some n) fs = (Failed MissingFile, fs)) \<and>
   (snapshotIndex p fs \<noteq> [] \<and>
    fs (checkpointPath p (file (last (snapshotIndex p fs)))) = None \<longrightarrow>
      checkpointRestore p None fs = (Failed MissingFile, fs)) \<and>
   (fst (checkpointRestore p nm fs) \<in> {Failed NotFound, Failed MissingFile} \<longrightarrow>
      snd (checkpointRestore p nm fs) = fs)"
proof (intro conjI impI)
  assume a: "indexReadable p fs \<and> snapshotIndex p fs = []"
  then have "readMeta fs (path_join (getCheckpointsPath p) ''meta.json'') =
      Some \<lparr>checkpoints = []\<rparr>"
    using indexReadable_readMeta [of p fs] by (simp add: metaPath_def)
  then show "checkpointRestore p nm fs = (Failed NotFound, fs)"
    by (simp add: checkpointRestore_def Let_def)
next
  assume a: "indexReadable p fs \<and> n \<noteq> [] \<and> (\<forall>cp \<in> set (snapshotIndex p fs). name cp \<noteq> n)"
  then have "find (\<lambda>cp. name cp = n) (snapshotIndex p fs) = None"
    by (simp add: find_None_iff)
  moreover have "readMeta fs (path_join (getCheckpointsPath p) ''meta.json'') =
      Some \<lparr>checkpoints = snapshotIndex p fs\<rparr>"
    using a indexReadable_readMeta [of p fs] by (simp add: metaPath_def)
  ultimately show "checkpointRestore p (Some n) fs = (Failed NotFound, fs)"
    using a by (simp add: checkpointRestore_def Let_def)
next
  assume a: "n \<noteq> [] \<and> find (\<lambda>cp. name cp = n) (snapshotIndex p fs) = Some cp \<and>
    fs (checkpointPath p (file cp)) = None"
  then have ne: "snapshotIndex p fs \<noteq> []" by auto
  have "readMeta fs (path_join (getCheckpointsPath p) ''meta.json'') =
      Some \<lparr>checkpoints = snapshotIndex p fs\<rparr>"
    using snapshotIndex_nonempty_readable [OF ne] by (simp add: metaPath_def)
  with a ne show "checkpointRestore p (Some n) fs = (Failed MissingFile, fs)"
    by (simp add: checkpointRestore_def Let_def checkpointPath_def pathExists_def)
next
  assume a: "snapshotIndex p fs \<noteq> [] \<and>
    fs (checkpointPath p (file (last (snapshotIndex p fs)))) = None"
  then have l: "snapshotIndex p fs ! (length (snapshotIndex p fs) - 1) = last (snapshotIndex p fs)"
    by (simp add: last_conv_nth)
  have "readMeta fs (path_join (getCheckpointsPath p) ''meta.json'') =
      Some \<lparr>checkpoints = snapshotIndex p fs\<rparr>"
    using a snapshotIndex_nonempty_readable [of p fs] by (simp add: metaPath_def)
  with a l show "checkpointRestore p None fs = (Failed MissingFile, fs)"
    by (simp add: checkpointRestore_def Let_def checkpointPath_def pathExists_def)
next
  assume "fst (checkpointRestore p nm fs) \<in> {Failed NotFound, Failed MissingFile}"
  then show "snd (checkpointRestore p nm fs) = fs"
    by (auto simp: checkpointRestore_def Let_def split: if_splits option.splits)
qed

theorem restore_failures_witness:
  "checkpointRestore example_project (Some ''x'') store_fresh = (Failed NotFound, store_fresh) \<and>
   checkpointRestore example_project (Some ''z'') store_xy = (Failed NotFound, store_xy) \<and>
   checkpointRestore example_project (Some ''x'') store_xy = (Failed MissingFile, store_xy) \<and>
   checkpointRestore example_project None store_yx = (Failed MissingFile, store_yx) \<and>
   snd (checkpointRestore example_project (Some ''x'') store_xy) = store_xy"
proof -
  have idx0: "indexReadable example_project store_fresh \<and>
      snapshotIndex example_project store_fresh = []"
    by (simp add: indexReadable_def snapshotIndex_def store_fresh_def example_dirs_def
        readMeta_def example_paths)
  have idx: "snapshotIndex example_project store_xy = [example_record ''x'', example_record ''y'']"
    by (simp add: snapshotIndex_def store_xy_def readMeta_def example_paths)
  have idx': "snapshotIndex example_project store_yx = [example_record ''y'', example_record ''x'']"
    by (simp add: snapshotIndex_def store_yx_def readMeta_def example_paths)
  have readable: "indexReadable example_project store_xy"
    by (simp add: indexReadable_def store_xy_def readMeta_def example_paths)
  have "''z'' \<noteq> [] \<and>
      (\<forall>cp \<in> set (snapshotIndex example_project store_xy). name cp \<noteq> ''z'')"
    unfolding idx by (simp add: example_record_def)
  with readable have nomatch: "indexReadable example_project store_xy \<and> ''z'' \<noteq> [] \<and>
      (\<forall>cp \<in> set (snapshotIndex example_project store_xy). name cp \<noteq> ''z'')"
    by (rule conjI)
  have missing: "''x'' \<noteq> [] \<and>
      find (\<lambda>cp. name cp = ''x'') (snapshotIndex example_project store_xy) =
        Some (example_record ''x'') \<and>
      store_xy (checkpointPath example_project (file (example_record ''x''))) = None"
    unfolding idx
    by (simp add: example_record_def store_xy_def example_dirs_def example_paths)
  have missing_last: "snapshotIndex example_project store_yx \<noteq> [] \<and>
      store_yx (checkpointPath example_project
        (file (last (snapshotIndex example_project store_yx)))) = None"
    unfolding idx'
    by (simp add: example_record_def store_yx_def example_dirs_def example_paths)
  note a = restore_failures [where p = example_project and fs = store_fresh
      and nm = "Some ''x''", THEN conjunct1, rule_format, OF idx0]
  note b = restore_failures [where p = example_project and fs = store_xy and n = "''z''",
      THEN conjunct2, THEN conjunct1, rule_format, OF nomatch]
  note c = restore_failures [where p = example_project and fs = store_xy and n = "''x''"
      and cp = "example_record ''x''",
      THEN conjunct2, THEN conjunct2, THEN conjunct1, rule_format, OF missing]
  note d = restore_failures [where p = example_project and fs = store_yx,
      THEN conjunct2, THEN conjunct2, THEN conjunct2, THEN conjunct1, rule_format,
      OF missing_last]
  have "fst (checkpointRestore example_project (Some ''x'') store_xy) \<in>
      {Failed NotFound, Failed MissingFile}"
    by (simp add: c)
  note e = restore_failures [where p = example_project and fs = store_xy
      and nm = "Some ''x''",
      THEN conjunct2, THEN conjunct2, THEN conjunct2, THEN conjunct2, rule_format, OF this]
  show ?thesis
    by (rule conjI [OF a conjI [OF b conjI [OF c conjI [OF d e]]]])
qed

text \<open>
  C8 (delete is isolated). On an index of exactly two records \<open>x\<close> and \<open>y\<close>, in either
  order, Delete of \<open>x\<close> succeeds whether or not the backing file of \<open>x\<close> is there,
  the index it writes holds exactly \<open>y\<close>, unchanged, and a Restore of \<open>x\<close> after it
  fails with NotFound. The index lies in the snapshot directory, and the backing path of
  \<open>x\<close> is not that directory or one above it.
\<close>

theorem delete_isolated:
  assumes "snapshotIndex p fs = [x, y] \<or> snapshotIndex p fs = [y, x]"
    and "name x \<noteq> name y"
    and "name x \<noteq> []"
    and "fs (getCheckpointsPath p) = Some Dir"
    and "\<not> prefix (checkpointPath p (file x)) (getCheckpointsPath p)"
    and "fs' = snd (checkpointDelete p (name x) fs)"
  shows "fst (checkpointDelete p (name x) fs) = Done \<and>
         snapshotIndex p fs' = [y] \<and>
         checkpointRestore p (Some (name x)) fs' = (Failed NotFound, fs')"
proof -
  let ?fs1 = "remove (checkpointPath p (file x)) fs"
  have ne: "snapshotIndex p fs \<noteq> []" using assms(1) by auto
  have rd: "readMeta fs (path_join (getCheckpointsPath p) ''meta.json'') =
      Some \<lparr>checkpoints = snapshotIndex p fs\<rparr>"
    using snapshotIndex_nonempty_readable [OF ne] by (simp add: metaPath_def)
  have "fs (metaPath p) \<noteq> Some Dir"
    using rd ne by (auto simp: readMeta_def metaPath_def)
  then have notdir: "?fs1 (metaPath p) \<noteq> Some Dir"
    by (simp add: remove_def)
  have parent: "?fs1 (butlast (metaPath p)) = Some Dir"
    using assms(4,5) by (simp add: remove_def meta_parent)
  have wr: "writeMeta (metaPath p) \<lparr>checkpoints = [y]\<rparr> ?fs1 =
      Some (?fs1(metaPath p \<mapsto> File (MetaDoc \<lparr>checkpoints = [y]\<rparr>)))"
    using notdir parent by (simp add: writeMeta_def)
  have del: "checkpointDelete p (name x) fs =
      (Done, ?fs1(metaPath p \<mapsto> File (MetaDoc \<lparr>checkpoints = [y]\<rparr>)))"
    using assms(1,2) wr
    by (auto simp: checkpointDelete_def Let_def rd splice1_def meta_update
        metaPath_def checkpointPath_def)
  then have idx: "snapshotIndex p fs' = [y]"
    by (simp add: assms(6) snapshotIndex_def readMeta_def)
  have "readMeta fs' (path_join (getCheckpointsPath p) ''meta.json'') =
      Some \<lparr>checkpoints = [y]\<rparr>"
    using del by (simp add: assms(6) readMeta_def metaPath_def)
  then have "checkpointRestore p (Some (name x)) fs' = (Failed NotFound, fs')"
    using assms(2,3)
    by (simp add: checkpointRestore_def Let_def)
  with del idx show ?thesis by simp
qed

theorem delete_isolated_witness:
  "store_xy (checkpointPath example_project (file (example_record ''x''))) = None \<and>
   fst (checkpointDelete example_project ''x'' store_xy) = Done \<and>
   snapshotIndex example_project (snd (checkpointDelete example_project ''x'' store_xy)) =
     [example_record ''y''] \<and>
   checkpointRestore example_project (Some ''x'')
       (snd (checkpointDelete example_project ''x'' store_xy)) =
     (Failed NotFound, snd (checkpointDelete example_project ''x'' store_xy))"
proof -
  have idx: "snapshotIndex example_project store_xy = [example_record ''x'', example_record ''y''] \<or>
      snapshotIndex example_project store_xy = [example_record ''y'', example_record ''x'']"
    by (simp add: snapshotIndex_def store_xy_def readMeta_def example_paths)
  have nm: "name (example_record ''x'') = ''x''"
    by (simp add: example_record_def)
  have distinct: "name (example_record ''x'') \<noteq> name (example_record ''y'')"
    by (simp add: example_record_def)
  have nonempty: "name (example_record ''x'') \<noteq> []"
    by (simp add: example_record_def)
  have gone: "store_xy (checkpointPath example_project (file (example_record ''x''))) = None"
    by (simp add: example_record_def store_xy_def example_dirs_def example_paths)
  have dir: "store_xy (getCheckpointsPath example_project) = Some Dir"
    by (simp add: store_xy_def example_paths)
  have below: "\<not> prefix (checkpointPath example_project (file (example_record ''x'')))
      (getCheckpointsPath example_project)"
    by (simp add: example_record_def example_paths)
  note r = delete_isolated [OF idx distinct nonempty dir below refl, unfolded nm]
  show ?thesis
    by (rule conjI [OF gone r])
qed

text \<open>
  C6 (duplicate rejection). After a successful Create under a name that no record of the
  index carried, a second Create under that name fails with DuplicateName and changes
  nothing, so the index holds exactly one record of that name. The test is on the file
  system: the second call fails in the same way whatever the index file holds by then,
  also when it is missing or unreadable.
\<close>

theorem create_twice_duplicate:
  assumes "n \<noteq> []"
    and "checkpointCreate p (Some n) d ts now fs = (Done, fs1)"
    and "\<forall>cp \<in> set (snapshotIndex p fs). name cp \<noteq> n"
  shows "checkpointCreate p (Some n) d' ts' now' fs1 = (Failed DuplicateName, fs1) \<and>
         length (filter (\<lambda>cp. name cp = n) (snapshotIndex p fs1)) = 1 \<and>
         (\<forall>m. checkpointCreate p (Some n) d' ts' now' (fs1(metaPath p := m)) =
                (Failed DuplicateName, fs1(metaPath p := m)))"
proof -
  let ?cp = "checkpointPath p (n @ ''.sqlite'')"
  let ?dir = "getCheckpointsPath p"
  let ?new = "\<lparr>name = n, created = now, file = n @ ''.sqlite'', description = d\<rparr>"
  have nm: "n = (if truthy (Some n) then the (Some n) else ''checkpoint-'' @ ts)"
    using assms(1) by simp
  note cr = checkpointCreate_Done [OF assms(2) nm]
  have idx1: "snapshotIndex p fs1 = snapshotIndex p fs @ [?new]"
    by (rule snapshotIndex_MetaDoc [of fs1 p, OF cr(6)])
  have dup: "checkpointCreate p (Some n) d' ts' now' (fs1(metaPath p := m)) =
                (Failed DuplicateName, fs1(metaPath p := m))" for m
  proof -
    let ?fs = "fs1(metaPath p := m)"
    have db: "?fs (getDatabasePath p) \<noteq> None"
      using cr(1,2) by (simp add: db_not_meta)
    have dirs: "?fs q = Some Dir" if "prefix q ?dir" for q
      using cr(4) [OF that] that meta_not_above_dir [of p] by auto
    have "\<not> underFile ?fs ?dir"
      using dirs by (auto simp: underFile_iff isFile_def strict_prefix_def)
    moreover have "\<not> isFile ?fs ?dir"
      using dirs [of ?dir] by (simp add: isFile_def)
    moreover have "(\<lambda>q. if prefix q ?dir then Some Dir else ?fs q) = ?fs"
    proof (rule ext)
      fix q
      show "(if prefix q ?dir then Some Dir else ?fs q) = ?fs q"
        using dirs [of q] by (cases "prefix q ?dir") (simp_all del: fun_upd_apply)
    qed
    ultimately have ens: "ensureDir ?dir ?fs = Some ?fs"
      by (simp add: ensureDir_def)
    have "?fs ?cp \<noteq> None"
      using cr(1,3) checkpointPath_not_meta [of p n] by simp
    then have "?fs (path_join ?dir (n @ ''.sqlite'')) \<noteq> None"
      by (simp add: checkpointPath_def)
    then show ?thesis
      using assms(1) db ens
      by (simp add: checkpointCreate_def Let_def pathExists_def)
  qed
  have "fs1(metaPath p := fs1 (metaPath p)) = fs1" by simp
  with dup [of "fs1 (metaPath p)"]
  have "checkpointCreate p (Some n) d' ts' now' fs1 = (Failed DuplicateName, fs1)" by simp
  moreover have "filter (\<lambda>cp. name cp = n) (snapshotIndex p fs) = []"
    using assms(3) by (simp add: filter_empty_conv)
  then have "length (filter (\<lambda>cp. name cp = n) (snapshotIndex p fs1)) = 1"
    by (simp add: idx1)
  ultimately show ?thesis using dup by simp
qed

theorem create_twice_duplicate_witness:
  "checkpointCreate example_project (Some ''x'') None ''0'' ''t0'' store_fresh =
     (Done, snd (checkpointCreate example_project (Some ''x'') None ''0'' ''t0'' store_fresh)) \<and>
   checkpointCreate example_project (Some ''x'') None ''1'' ''t1''
       (snd (checkpointCreate example_project (Some ''x'') None ''0'' ''t0'' store_fresh)) =
     (Failed DuplicateName,
      snd (checkpointCreate example_project (Some ''x'') None ''0'' ''t0'' store_fresh)) \<and>
   length (filter (\<lambda>cp. name cp = ''x'') (snapshotIndex example_project
     (snd (checkpointCreate example_project (Some ''x'') None ''0'' ''t0'' store_fresh)))) = 1"
proof -
  let ?fs1 = "snd (checkpointCreate example_project (Some ''x'') None ''0'' ''t0'' store_fresh)"
  have "fst (checkpointCreate example_project (Some ''x'') None ''0'' ''t0'' store_fresh) = Done"
    by (simp add: checkpointCreate_def store_fresh_def example_dirs_def pathExists_def
        ensureDir_def underFile_def isFile_def copy_def readMeta_def writeMeta_def Let_def
        example_paths)
  then have create: "checkpointCreate example_project (Some ''x'') None ''0'' ''t0'' store_fresh =
      (Done, ?fs1)"
    by (metis prod.collapse)
  have fresh: "\<forall>cp \<in> set (snapshotIndex example_project store_fresh). name cp \<noteq> ''x''"
    by (simp add: snapshotIndex_def readMeta_def store_fresh_def example_dirs_def example_paths)
  have name: "''x'' \<noteq> []" by simp
  note r = create_twice_duplicate [OF name create fresh, where d' = None and ts' = "''1''"
      and now' = "''t1''"]
  show ?thesis
    by (rule conjI [OF create conjI [OF r [THEN conjunct1] r [THEN conjunct2, THEN conjunct1]]])
qed

section \<open>Facts about the configuration document\<close>

lemmas spread_defs =
  spread_property_def spread_Blueprint_def own_Versions_def spread_Versions_def
  own_Wpsmith_def spread_Wpsmith_def

lemmas json_defs =
  json_property_def json_Versions_def json_Features_def json_Wpsmith_def json_Blueprint_def






lemma spread_property_simps:
  "spread_property a Absent = a"
  "spread_property a Undefined = Undefined"
  "spread_property a (Value v) = Value v"
  "spread_property Absent b = b"
  by (simp_all add: spread_property_def split: property.splits)









text \<open>Reading the slugs of a list of steps, piecewise.\<close>

lemma mapSlugs_append:
  "mapSlugs (xs @ ys) =
     (case mapSlugs xs of
        Inl e \<Rightarrow> Inl e
      | Inr a \<Rightarrow> (case mapSlugs ys of Inl e \<Rightarrow> Inl e | Inr b \<Rightarrow> Inr (a @ b)))"
  by (induction xs) (auto split: sum.splits)

lemma pluginData_slug: "pluginData st = Some pd \<Longrightarrow> pluginDataSlug st = Inr (slug pd)"
  by (induction st rule: pluginData.induct) simp_all

lemma pluginData_has: "pluginData st = Some pd \<Longrightarrow> hasPluginData st"
  by (induction st rule: pluginData.induct) simp_all




section \<open>Claims about the configuration document\<close>



text \<open>
  C4 (fail open). Load never fails: where the document is missing, and where it is there
  and does not parse, Load returns the default document, which holds the schema
  identifier, the default versions and the default \<open>wpsmith\<close> block.
\<close>

theorem loadBlueprint_fail_open:
  "loadBlueprint p (fs(path_join p ''blueprint.json'' := None)) = DEFAULT_BLUEPRINT \<and>
   loadBlueprint p (fs(path_join p ''blueprint.json'' \<mapsto> Raw bytes)) = DEFAULT_BLUEPRINT \<and>
   DEFAULT_BLUEPRINT =
     \<lparr>schema = Value ''https://playground.wordpress.net/blueprint-schema.json'',
      landingPage = Absent,
      preferredVersions = Value \<lparr>php = Value ''8.3'', wp = Value ''latest''\<rparr>,
      features = Absent,
      steps = Absent,
      wpsmith = Value \<lparr>port = Value 9400\<rparr>\<rparr>"
  by (simp add: loadBlueprint_def readBlueprint_def DEFAULT_BLUEPRINT_def BLUEPRINT_SCHEMA_def)

text \<open>
  C5 (defaults on load). Load puts the default in place of every top-level key that the
  document does not have, and takes every top-level key that the document has as it is:
  a \<open>preferredVersions\<close> object of the document replaces the default one whole, so a
  version key it leaves out stays out.
\<close>

theorem loadBlueprint_top_level_defaults:
  assumes "fs (path_join p ''blueprint.json'') = Some (BlueprintDoc d)"
    and "doc = json_Blueprint d"
    and "loaded = loadBlueprint p fs"
  shows "schema loaded = (if schema doc = Absent then schema DEFAULT_BLUEPRINT else schema doc) \<and>
    landingPage loaded =
      (if landingPage doc = Absent then landingPage DEFAULT_BLUEPRINT else landingPage doc) \<and>
    preferredVersions loaded =
      (if preferredVersions doc = Absent then preferredVersions DEFAULT_BLUEPRINT
       else preferredVersions doc) \<and>
    features loaded = (if features doc = Absent then features DEFAULT_BLUEPRINT else features doc) \<and>
    steps loaded = (if steps doc = Absent then steps DEFAULT_BLUEPRINT else steps doc) \<and>
    wpsmith loaded = (if wpsmith doc = Absent then wpsmith DEFAULT_BLUEPRINT else wpsmith doc)"
proof -
  have s: "spread_property a b = (if b = Absent then a else b)" for a b :: "'a property"
    by (cases b) (simp_all add: spread_property_simps)
  from assms show ?thesis
    by (simp add: loadBlueprint_def readBlueprint_def spread_Blueprint_def s)
qed

theorem loadBlueprint_top_level_defaults_witness:
  "preferredVersions (json_Blueprint example_wp_only) =
     Value \<lparr>php = Absent, wp = Value ''6.7''\<rparr> \<and>
   preferredVersions (loadBlueprint example_project
     [path_join example_project ''blueprint.json'' \<mapsto> BlueprintDoc example_wp_only]) =
     Value \<lparr>php = Absent, wp = Value ''6.7''\<rparr> \<and>
   wpsmith (loadBlueprint example_project
     [path_join example_project ''blueprint.json'' \<mapsto> BlueprintDoc example_wp_only]) =
     Value \<lparr>port = Value 9400\<rparr>"
proof -
  let ?fs = "[path_join example_project ''blueprint.json'' \<mapsto> BlueprintDoc example_wp_only]"
  have at: "?fs (path_join example_project ''blueprint.json'') = Some (BlueprintDoc example_wp_only)"
    by simp
  have pv: "preferredVersions (json_Blueprint example_wp_only) =
      Value \<lparr>php = Absent, wp = Value ''6.7''\<rparr>"
    by (simp add: example_wp_only_def json_defs)
  have w: "wpsmith (json_Blueprint example_wp_only) = Absent"
    by (simp add: example_wp_only_def json_defs)
  note r = loadBlueprint_top_level_defaults [where p = example_project and fs = ?fs
      and d = example_wp_only, OF at refl refl]
  have a: "preferredVersions (loadBlueprint example_project ?fs) =
      Value \<lparr>php = Absent, wp = Value ''6.7''\<rparr>"
    using r [THEN conjunct2, THEN conjunct2, THEN conjunct1] unfolding pv by simp
  have b: "wpsmith (loadBlueprint example_project ?fs) = Value \<lparr>port = Value 9400\<rparr>"
    using r [THEN conjunct2, THEN conjunct2, THEN conjunct2, THEN conjunct2, THEN conjunct2]
    unfolding w by (simp add: DEFAULT_BLUEPRINT_def)
  show ?thesis
    by (rule conjI [OF pv conjI [OF a b]])
qed

text \<open>
  The claim as the specification words it asks for the default of a version key that a
  \<open>preferredVersions\<close> object of the document leaves out. The document
  \<open>{preferredVersions: {wp: "6.7"}}\<close> is loaded without \<open>php\<close>.
\<close>

theorem loadBlueprint_shallow_counterexample:
  "php (own_Versions (preferredVersions (loadBlueprint example_project
      [path_join example_project ''blueprint.json'' \<mapsto> BlueprintDoc example_wp_only]))) \<noteq>
   php (own_Versions (preferredVersions DEFAULT_BLUEPRINT))"
  by (simp add: loadBlueprint_def readBlueprint_def DEFAULT_BLUEPRINT_def spread_defs json_defs
      example_wp_only_def)

text \<open>
  C9 (plugin projection). The plugin list is the list of the slugs of the install-plugin
  steps, in the order of the steps: from install-plugin \<open>a\<close>, set-options,
  install-plugin \<open>b\<close> it is \<open>[a, b]\<close>. It is empty when the document has no steps
  and when none of its steps is an install-plugin step. The list of a concatenation of
  steps is the concatenation of the lists, and there is none where one of the two has
  none.
\<close>

theorem getPluginsFromBlueprint_projection:
  "(sa \<noteq> [] \<and> sb \<noteq> [] \<longrightarrow>
      getPluginsFromBlueprint (b\<lparr>steps := Value
        [InstallPlugin \<lparr>resource = ra, slug = Some sa, url = ua\<rparr>,
         SetSiteOptions opts,
         InstallPlugin \<lparr>resource = rb, slug = Some sb, url = ub\<rparr>]\<rparr>) = Inr [sa, sb]) \<and>
   (steps b = Absent \<or> steps b = Undefined \<or> steps b = Value [] \<longrightarrow>
      getPluginsFromBlueprint b = Inr []) \<and>
   (steps b = Value ss \<and> (\<forall>st \<in> set ss. step_tag st \<noteq> ''installPlugin'') \<longrightarrow>
      getPluginsFromBlueprint b = Inr []) \<and>
   (steps b = Value ss \<and>
    (\<forall>st \<in> set ss. step_tag st = ''installPlugin'' \<longrightarrow>
       (\<exists>pd s. pluginData st = Some pd \<and> slug pd = Some s \<and> s \<noteq> [])) \<longrightarrow>
      getPluginsFromBlueprint b =
        Inr (map (\<lambda>st. the (slug (the (pluginData st))))
          (filter (\<lambda>st. step_tag st = ''installPlugin'') ss))) \<and>
   getPluginsFromBlueprint (b\<lparr>steps := Value (xs @ ys)\<rparr>) =
     (case getPluginsFromBlueprint (b\<lparr>steps := Value xs\<rparr>) of
        Inl e \<Rightarrow> Inl e
      | Inr pa \<Rightarrow>
          (case getPluginsFromBlueprint (b\<lparr>steps := Value ys\<rparr>) of
             Inl e \<Rightarrow> Inl e
           | Inr pb \<Rightarrow> Inr (pa @ pb)))"
proof (intro conjI impI)
  show "getPluginsFromBlueprint (b\<lparr>steps := Value (xs @ ys)\<rparr>) =
     (case getPluginsFromBlueprint (b\<lparr>steps := Value xs\<rparr>) of
        Inl e \<Rightarrow> Inl e
      | Inr pa \<Rightarrow>
          (case getPluginsFromBlueprint (b\<lparr>steps := Value ys\<rparr>) of
             Inl e \<Rightarrow> Inl e
           | Inr pb \<Rightarrow> Inr (pa @ pb)))"
    by (simp add: getPluginsFromBlueprint_def mapSlugs_append split: sum.splits)
next
  assume "sa \<noteq> [] \<and> sb \<noteq> []"
  then show "getPluginsFromBlueprint (b\<lparr>steps := Value
        [InstallPlugin \<lparr>resource = ra, slug = Some sa, url = ua\<rparr>,
         SetSiteOptions opts,
         InstallPlugin \<lparr>resource = rb, slug = Some sb, url = ub\<rparr>]\<rparr>) = Inr [sa, sb]"
    by (simp add: getPluginsFromBlueprint_def)
next
  assume "steps b = Absent \<or> steps b = Undefined \<or> steps b = Value []"
  then show "getPluginsFromBlueprint b = Inr []"
    by (auto simp: getPluginsFromBlueprint_def)
next
  assume "steps b = Value ss \<and> (\<forall>st \<in> set ss. step_tag st \<noteq> ''installPlugin'')"
  then have "steps b = Value ss"
    and "filter (\<lambda>step. step_tag step = ''installPlugin'' \<and> hasPluginData step) ss = []"
    by (simp_all add: filter_empty_conv)
  then show "getPluginsFromBlueprint b = Inr []"
    by (simp add: getPluginsFromBlueprint_def)
next
  assume a: "steps b = Value ss \<and>
    (\<forall>st \<in> set ss. step_tag st = ''installPlugin'' \<longrightarrow>
       (\<exists>pd s. pluginData st = Some pd \<and> slug pd = Some s \<and> s \<noteq> []))"
  then have h: "\<forall>st \<in> set ss. step_tag st = ''installPlugin'' \<longrightarrow>
       (\<exists>pd s. pluginData st = Some pd \<and> slug pd = Some s \<and> s \<noteq> [])" by simp
  then have "(case mapSlugs
                  (filter (\<lambda>step. step_tag step = ''installPlugin'' \<and> hasPluginData step) ss) of
             Inl e \<Rightarrow> Inl e
           | Inr slugs \<Rightarrow> Inr (map the (filter truthy slugs))) =
        Inr (map (\<lambda>st. the (slug (the (pluginData st))))
          (filter (\<lambda>st. step_tag st = ''installPlugin'') ss))"
  proof (induction ss)
    case Nil
    then show ?case by simp
  next
    case (Cons st ss)
    show ?case
    proof (cases "step_tag st = ''installPlugin''")
      case True
      with Cons.prems obtain pd s where
        pd: "pluginData st = Some pd" "slug pd = Some s" "s \<noteq> []" by auto
      from Cons.IH Cons.prems True pd show ?thesis
        by (auto simp: pluginData_slug pluginData_has split: sum.splits)
    next
      case False
      with Cons.IH Cons.prems show ?thesis by simp
    qed
  qed
  with a show "getPluginsFromBlueprint b =
        Inr (map (\<lambda>st. the (slug (the (pluginData st))))
          (filter (\<lambda>st. step_tag st = ''installPlugin'') ss))"
    by (simp add: getPluginsFromBlueprint_def)
qed

theorem getPluginsFromBlueprint_projection_witness:
  "getPluginsFromBlueprint (DEFAULT_BLUEPRINT\<lparr>steps := Value
     [InstallPlugin \<lparr>resource = WordpressOrgPlugins, slug = Some ''akismet'', url = None\<rparr>,
      SetSiteOptions [(''blogname'', ''Site'')],
      InstallPlugin \<lparr>resource = WordpressOrgPlugins, slug = Some ''jetpack'', url = None\<rparr>]\<rparr>) =
     Inr [''akismet'', ''jetpack''] \<and>
   getPluginsFromBlueprint DEFAULT_BLUEPRINT = Inr [] \<and>
   getPluginsFromBlueprint (DEFAULT_BLUEPRINT\<lparr>steps := Value
     [RunPHP ''x'', SetSiteOptions [(''blogname'', ''Site'')]]\<rparr>) = Inr [] \<and>
   getPluginsFromBlueprint (DEFAULT_BLUEPRINT\<lparr>steps := Value
     (createPluginSteps [''akismet'', ''jetpack''])\<rparr>) = Inr [''akismet'', ''jetpack'']"
proof -
  note a = getPluginsFromBlueprint_projection [where b = DEFAULT_BLUEPRINT
      and sa = "''akismet''" and sb = "''jetpack''" and ra = WordpressOrgPlugins
      and rb = WordpressOrgPlugins and ua = None and ub = None
      and opts = "[(''blogname'', ''Site'')]", THEN conjunct1, rule_format]
  have a': "getPluginsFromBlueprint (DEFAULT_BLUEPRINT\<lparr>steps := Value
     [InstallPlugin \<lparr>resource = WordpressOrgPlugins, slug = Some ''akismet'', url = None\<rparr>,
      SetSiteOptions [(''blogname'', ''Site'')],
      InstallPlugin \<lparr>resource = WordpressOrgPlugins, slug = Some ''jetpack'', url = None\<rparr>]\<rparr>) =
     Inr [''akismet'', ''jetpack'']"
    by (rule a) simp
  note b = getPluginsFromBlueprint_projection [where b = DEFAULT_BLUEPRINT,
      THEN conjunct2, THEN conjunct1, rule_format]
  have b': "getPluginsFromBlueprint DEFAULT_BLUEPRINT = Inr []"
    by (rule b) (simp add: DEFAULT_BLUEPRINT_def)
  note c = getPluginsFromBlueprint_projection [where
      b = "DEFAULT_BLUEPRINT\<lparr>steps := Value
        [RunPHP ''x'', SetSiteOptions [(''blogname'', ''Site'')]]\<rparr>"
      and ss = "[RunPHP ''x'', SetSiteOptions [(''blogname'', ''Site'')]]",
      THEN conjunct2, THEN conjunct2, THEN conjunct1, rule_format]
  have c': "getPluginsFromBlueprint (DEFAULT_BLUEPRINT\<lparr>steps := Value
     [RunPHP ''x'', SetSiteOptions [(''blogname'', ''Site'')]]\<rparr>) = Inr []"
    by (rule c) simp
  note d = getPluginsFromBlueprint_projection [where
      b = "DEFAULT_BLUEPRINT\<lparr>steps := Value (createPluginSteps [''akismet'', ''jetpack''])\<rparr>"
      and ss = "createPluginSteps [''akismet'', ''jetpack'']",
      THEN conjunct2, THEN conjunct2, THEN conjunct2, THEN conjunct1, rule_format]
  have "getPluginsFromBlueprint (DEFAULT_BLUEPRINT\<lparr>steps := Value
     (createPluginSteps [''akismet'', ''jetpack''])\<rparr>) =
       Inr (map (\<lambda>st. the (slug (the (pluginData st))))
          (filter (\<lambda>st. step_tag st = ''installPlugin'')
             (createPluginSteps [''akismet'', ''jetpack''])))"
    by (rule d) (simp add: createPluginSteps_def)
  then have d': "getPluginsFromBlueprint (DEFAULT_BLUEPRINT\<lparr>steps := Value
     (createPluginSteps [''akismet'', ''jetpack''])\<rparr>) = Inr [''akismet'', ''jetpack'']"
    by (simp add: createPluginSteps_def)
  show ?thesis
    by (rule conjI [OF a' conjI [OF b' conjI [OF c' d']]])
qed




end
